theory Spec2Isabelle
  imports Main "HOL-Library.Word"
begin

section \<open>Python values, exceptions and the world the handlers run in\<close>

text \<open>
  The router \<^verbatim>\<open>src/api/routers/conversations.py\<close> holds five request handlers. Each one
  logs, possibly checks the caller's identity, awaits one function of the conversation
  service and maps what comes back to a return value or to a raised exception.

  The values the service hands back are Python objects. The handlers never look inside
  them; the only operation applied to one is the truth test \<^verbatim>\<open>not conversation\<close> of
  \<^verbatim>\<open>get_conversation_by_id\<close>. \<open>PyObject\<close> stands for an instance of a class that defines
  neither \<^verbatim>\<open>__bool__\<close> nor \<^verbatim>\<open>__len__\<close> (a Pydantic model, an ORM row): its class name and
  its attributes.
\<close>

datatype pyval =
    PyNone
  | PyBool bool
  | PyInt int
  | PyStr string
  | PyList "pyval list"
  | PyDict "(string \<times> pyval) list"
  | PyObject string "(string \<times> pyval) list"

text \<open>Python's truth test, as \<^verbatim>\<open>not v\<close> and \<^verbatim>\<open>if v\<close> apply it.\<close>

fun truthy :: "pyval \<Rightarrow> bool" where
  "truthy PyNone = False"
| "truthy (PyBool b) = b"
| "truthy (PyInt i) = (i \<noteq> 0)"
| "truthy (PyStr s) = (s \<noteq> [])"
| "truthy (PyList xs) = (xs \<noteq> [])"
| "truthy (PyDict kvs) = (kvs \<noteq> [])"
| "truthy (PyObject cls attrs) = True"

text \<open>
  The exceptions an \<^verbatim>\<open>except Exception\<close> clause ranges over. \<^verbatim>\<open>HTTPException\<close> is a subclass
  of \<^verbatim>\<open>Exception\<close> carrying a status code and a detail; \<open>OtherException\<close> is an instance of
  any other subclass of \<^verbatim>\<open>Exception\<close>, with its message.
\<close>

datatype exn =
    HTTPException (status_code: int) (detail: string)
  | OtherException string

definition HTTP_403_FORBIDDEN :: int where
  "HTTP_403_FORBIDDEN = 403"

text \<open>
  A log call is recorded with the pieces of its f-string: the literal text and the
  interpolated values, in order.
\<close>

datatype fragment = Lit string | FInt int | FStr string | FExn exn

datatype log_record = INFO "fragment list" | ERROR "fragment list"

text \<open>The five service functions imported on line 9 of the router.\<close>

datatype service =
    CreateConversationService
  | GetConversationsService
  | GetSessionConversationsService
  | UpdateConversationService
  | GetPrdService

text \<open>
  The world a handler runs in: the state owned by the conversation service (\<open>db\<close>, of
  any type), the records written to the logger, and the trace of the service functions
  that were awaited, in order.
\<close>

record 'db world =
  db :: 'db
  logged :: "log_record list"
  invoked :: "service list"

type_synonym ('a, 'db) action = "'db world \<Rightarrow> (exn + 'a) \<times> 'db world"

definition logger_info :: "fragment list \<Rightarrow> 'db world \<Rightarrow> 'db world" where
  "logger_info msg w = w\<lparr>logged := logged w @ [INFO msg]\<rparr>"

definition logger_error :: "fragment list \<Rightarrow> 'db world \<Rightarrow> 'db world" where
  "logger_error msg w = w\<lparr>logged := logged w @ [ERROR msg]\<rparr>"

text \<open>
  \<^verbatim>\<open>await f(args)\<close>: the service function runs on the service's state and either returns
  a value (\<open>Inr\<close>) or raises (\<open>Inl\<close>); the call is appended to the trace.
\<close>

definition await :: "service \<Rightarrow> ('db \<Rightarrow> (exn + 'a) \<times> 'db) \<Rightarrow> ('a, 'db) action" where
  "await name call w =
     (case call (db w) of (r, d) \<Rightarrow> (r, w\<lparr>db := d, invoked := invoked w @ [name]\<rparr>))"

text \<open>
  \<^verbatim>\<open>try: body  except ... as e: handler\<close>. A value returned by the body is the result; an
  exception raised by the body goes to the handler, and what the handler raises is not
  caught again.
\<close>

definition try_except ::
  "('a, 'db) action \<Rightarrow> (exn \<Rightarrow> ('a, 'db) action) \<Rightarrow> ('a, 'db) action" where
  "try_except body handler w =
     (case body w of
        (Inr v, w') \<Rightarrow> (Inr v, w')
      | (Inl e, w') \<Rightarrow> handler e w')"

section \<open>Request and user objects\<close>

text \<open>
  The schema classes are declared outside the router. The handlers read
  \<^verbatim>\<open>current_user.user_id\<close>, \<^verbatim>\<open>request.session_id\<close> and \<^verbatim>\<open>request.user_id\<close>; every other field
  of the three classes is the extension part of the record.
\<close>

record UserInDB =
  user_id :: int

record ConversationCreateRequest =
  session_id :: int
  user_id :: int

record ConversationUpdateRequest =
  session_id :: int
  user_id :: int

text \<open>
  \<^verbatim>\<open>uuid.UUID\<close> is a 128-bit integer; \<^verbatim>\<open>str\<close> of it is its 32 lower-case hexadecimal digits in
  groups of 8, 4, 4, 4 and 12.
\<close>

type_synonym UUID = "128 word"

fun hex_fixed :: "nat \<Rightarrow> nat \<Rightarrow> string" where
  "hex_fixed 0 v = []"
| "hex_fixed (Suc n) v = hex_fixed n (v div 16) @ [''0123456789abcdef'' ! (v mod 16)]"

definition str_UUID :: "UUID \<Rightarrow> string" where
  "str_UUID u =
     (let hex = hex_fixed 32 (unat u)
      in take 8 hex @ ''-'' @ take 4 (drop 8 hex) @ ''-'' @ take 4 (drop 12 hex) @ ''-''
         @ take 4 (drop 16 hex) @ ''-'' @ drop 20 hex)"

section \<open>The five handlers\<close>

text \<open>
  Each handler takes the service function it awaits as its first argument, under the
  name the router imports it by.
\<close>

definition create_conversation ::
  "('r ConversationCreateRequest_scheme \<Rightarrow> 'u UserInDB_scheme \<Rightarrow> 'db \<Rightarrow> (exn + pyval) \<times> 'db)
   \<Rightarrow> 'r ConversationCreateRequest_scheme \<Rightarrow> 'u UserInDB_scheme \<Rightarrow> (pyval, 'db) action" where
  "create_conversation create_conversation_service request current_user w =
     (let w1 = logger_info
                 [Lit ''Creating a conversation for session_id: '',
                  FInt (ConversationCreateRequest.session_id request),
                  Lit '' by user_id: '',
                  FInt (UserInDB.user_id current_user)] w
      in if UserInDB.user_id current_user \<noteq> ConversationCreateRequest.user_id request
         then (Inl (HTTPException HTTP_403_FORBIDDEN
                      ''User ID does not match the authenticated user's ID''), w1)
         else try_except
                (await CreateConversationService
                   (create_conversation_service request current_user))
                (\<lambda>e w'. (Inl (HTTPException 500 ''Internal server error''),
                          logger_error [Lit ''Error creating conversation: '', FExn e] w'))
                w1)"

definition get_session_conversations ::
  "(int \<Rightarrow> int \<Rightarrow> 'db \<Rightarrow> (exn + pyval) \<times> 'db)
   \<Rightarrow> int \<Rightarrow> 'u UserInDB_scheme \<Rightarrow> (pyval, 'db) action" where
  "get_session_conversations get_session_conversations_service =
     (\<lambda>session_id current_user w.
      let w1 = logger_info [Lit ''Fetching conversations for session_id: '', FInt session_id] w
      in try_except
           (await GetSessionConversationsService
              (get_session_conversations_service session_id (UserInDB.user_id current_user)))
           (\<lambda>e w'. (Inl (HTTPException 500 ''Internal server error''),
                     logger_error
                       [Lit ''Error fetching conversations for session '', FInt session_id,
                        Lit '': '', FExn e] w'))
           w1)"

definition get_conversation_by_id ::
  "(string \<Rightarrow> int \<Rightarrow> 'db \<Rightarrow> (exn + pyval) \<times> 'db)
   \<Rightarrow> UUID \<Rightarrow> 'u UserInDB_scheme \<Rightarrow> (pyval, 'db) action" where
  "get_conversation_by_id get_conversations_service conversation_id current_user w =
     (let w1 = logger_info
                 [Lit ''Fetching conversation with id: '', FStr (str_UUID conversation_id)] w
      in try_except
           (\<lambda>w. case await GetConversationsService
                        (get_conversations_service (str_UUID conversation_id)
                           (UserInDB.user_id current_user)) w of
                   (Inl e, w') \<Rightarrow> (Inl e, w')
                 | (Inr conversation, w') \<Rightarrow>
                     if \<not> truthy conversation
                     then (Inl (HTTPException 404 ''Conversation not found''), w')
                     else (Inr conversation, w'))
           (\<lambda>e w'. case e of
                      HTTPException s d \<Rightarrow> (Inl e, w')
                    | OtherException m \<Rightarrow>
                        (Inl (HTTPException 500 ''Internal server error''),
                         logger_error
                           [Lit ''Error fetching conversation '',
                            FStr (str_UUID conversation_id), Lit '': '', FExn e] w'))
           w1)"

definition update_conversation ::
  "('r ConversationUpdateRequest_scheme \<Rightarrow> 'db \<Rightarrow> (exn + pyval) \<times> 'db)
   \<Rightarrow> 'r ConversationUpdateRequest_scheme \<Rightarrow> 'u UserInDB_scheme \<Rightarrow> (pyval, 'db) action" where
  "update_conversation update_conversation_service request current_user w =
     (let w1 = logger_info
                 [Lit ''Updating conversation for session_id: '',
                  FInt (ConversationUpdateRequest.session_id request)] w
      in if UserInDB.user_id current_user \<noteq> ConversationUpdateRequest.user_id request
         then (Inl (HTTPException HTTP_403_FORBIDDEN
                      ''User ID does not match the authenticated user's ID''), w1)
         else try_except
                (await UpdateConversationService (update_conversation_service request))
                (\<lambda>e w'. (Inl (HTTPException 500 ''Internal server error''),
                          logger_error [Lit ''Error updating conversation: '', FExn e] w'))
                w1)"

definition get_latest_prd ::
  "(int \<Rightarrow> 'db \<Rightarrow> (exn + pyval) \<times> 'db) \<Rightarrow> int \<Rightarrow> (pyval, 'db) action" where
  "get_latest_prd get_prd_service =
     (\<lambda>user_id. await GetPrdService (get_prd_service user_id))"

section \<open>The route table and its dispatch\<close>

text \<open>
  The decorators register the five handlers on \<^verbatim>\<open>APIRouter(prefix="/conversations")\<close>, each
  with its set of HTTP methods (a single one) and a path that the prefix is put in front
  of. The table below lists them in the order of the source: lines 15, 35, 48, 65 and 86.
\<close>

datatype http_method = GET | POST | PUT | DELETE | HEAD

datatype endpoint =
    Create_conversation
  | Get_session_conversations
  | Get_conversation_by_id
  | Update_conversation
  | Get_latest_prd

record route =
  methods :: "http_method list"
  path :: string
  endpoint :: endpoint

definition prefix :: string where
  "prefix = ''/conversations''"

definition routes :: "route list" where
  "routes =
     [\<lparr>methods = [POST], path = prefix @ [], endpoint = Create_conversation\<rparr>,
      \<lparr>methods = [GET], path = prefix @ ''/session/{session_id}'',
         endpoint = Get_session_conversations\<rparr>,
      \<lparr>methods = [GET], path = prefix @ ''/{conversation_id}'', endpoint = Get_conversation_by_id\<rparr>,
      \<lparr>methods = [PUT], path = prefix @ [], endpoint = Update_conversation\<rparr>,
      \<lparr>methods = [GET], path = prefix @ ''/get_prd'', endpoint = Get_latest_prd\<rparr>]"

text \<open>
  The framework compiles a route's path to a regular expression \<^verbatim>\<open>^...$\<close> in which a
  parameter \<^verbatim>\<open>{name}\<close> stands for \<^verbatim>\<open>[^/]+\<close>, one or more characters other than a slash, and
  all other text stands for itself. Every parameter of this table fills a whole path
  segment, so a path is matched segment by segment: \<open>split_slash\<close> is \<^verbatim>\<open>str.split("/")\<close>.
  Python's \<^verbatim>\<open>$\<close> matches at the end of the string and also just before a newline that ends
  the string, so a final literal segment also matches when one newline follows it; a
  final parameter takes the newline into its value.
  The type a handler declares for a parameter (\<^verbatim>\<open>uuid.UUID\<close>, \<^verbatim>\<open>int\<close>) plays no part in the
  match: the matched text is converted after the route has been chosen.
\<close>

fun split_slash :: "string \<Rightarrow> string list" where
  "split_slash [] = [[]]"
| "split_slash (c # cs) =
     (if c = CHR ''/'' then [] # split_slash cs
      else (case split_slash cs of
              [] \<Rightarrow> [[c]]
            | s # ss \<Rightarrow> (c # s) # ss))"

datatype segment = Literal string | Param string

definition compile_segment :: "string \<Rightarrow> segment" where
  "compile_segment s =
     (if 2 \<le> length s \<and> hd s = CHR ''{'' \<and> last s = CHR ''}''
      then Param (butlast (tl s)) else Literal s)"

definition compile_path :: "string \<Rightarrow> segment list" where
  "compile_path p = map compile_segment (split_slash p)"

fun match_segments :: "segment list \<Rightarrow> string list \<Rightarrow> (string \<times> string) list option" where
  "match_segments [] [] = Some []"
| "match_segments (Literal l # ps) (x # xs) =
     (if l = x then match_segments ps xs
      else if ps = [] \<and> xs = [] \<and> x = l @ [CHR 0x0A] then Some []
      else None)"
| "match_segments (Param n # ps) (x # xs) =
     (if x \<noteq> [] then map_option ((#) (n, x)) (match_segments ps xs) else None)"
| "match_segments [] (x # xs) = None"
| "match_segments (p # ps) [] = None"

text \<open>
  A route matches a request fully when its path and its method match, partially when
  only its path does.
\<close>

datatype match = NONE | PARTIAL | FULL

definition matches ::
  "route \<Rightarrow> http_method \<Rightarrow> string \<Rightarrow> match \<times> (string \<times> string) list" where
  "matches r m p =
     (case match_segments (compile_path (path r)) (split_slash p) of
        None \<Rightarrow> (NONE, [])
      | Some path_params \<Rightarrow>
          if m \<notin> set (methods r) then (PARTIAL, path_params) else (FULL, path_params))"

text \<open>
  The router walks its routes in the order of registration. The first full match handles
  the request; without one, the first partial match answers 405. Without any match, and
  unless the path is \<^verbatim>\<open>/\<close>, the router (with its default \<^verbatim>\<open>redirect_slashes\<close>) tries the path
  with its trailing slashes removed, or with one slash added when it has none, and
  answers with a redirect to that path when some route matches it, whatever the method;
  otherwise 404.
\<close>

datatype dispatched =
    Handled endpoint "(string \<times> string) list"
  | MethodNotAllowed
  | Redirect string
  | NoRoute

fun first_full ::
  "route list \<Rightarrow> http_method \<Rightarrow> string \<Rightarrow> (endpoint \<times> (string \<times> string) list) option" where
  "first_full [] m p = None"
| "first_full (r # rs) m p =
     (case matches r m p of
        (FULL, path_params) \<Rightarrow> Some (endpoint r, path_params)
      | _ \<Rightarrow> first_full rs m p)"

definition redirect_path :: "string \<Rightarrow> string" where
  "redirect_path p =
     (if p \<noteq> [] \<and> last p = CHR ''/''
      then rev (dropWhile (\<lambda>c. c = CHR ''/'') (rev p))
      else p @ ''/'')"

definition dispatch :: "route list \<Rightarrow> http_method \<Rightarrow> string \<Rightarrow> dispatched" where
  "dispatch rs m p =
     (case first_full rs m p of
        Some (e, path_params) \<Rightarrow> Handled e path_params
      | None \<Rightarrow>
          if list_ex (\<lambda>r. fst (matches r m p) = PARTIAL) rs then MethodNotAllowed
          else if p \<noteq> ''/'' \<and> list_ex (\<lambda>r. fst (matches r m (redirect_path p)) \<noteq> NONE) rs
          then Redirect (redirect_path p)
          else NoRoute)"

section \<open>The response model and stub services for the examples\<close>

text \<open>
  Modelled from the spec: the class \<^verbatim>\<open>ConversationResponse\<close> is declared in
  \<^verbatim>\<open>api/schemas/conversation.py\<close>, outside the router. The spec's data model gives it a
  \<^verbatim>\<open>conversation_id\<close> (a UUID-formatted string), a \<^verbatim>\<open>session_id\<close> and a \<^verbatim>\<open>user_id\<close> (integers),
  and further content fields. A conversation value is an object or a dictionary with at
  least these three fields.
\<close>

definition has_conversation_fields :: "(string \<times> pyval) list \<Rightarrow> bool" where
  "has_conversation_fields kvs =
     (case (map_of kvs ''conversation_id'', map_of kvs ''session_id'', map_of kvs ''user_id'') of
        (Some (PyStr c), Some (PyInt s), Some (PyInt u)) \<Rightarrow> True
      | _ \<Rightarrow> False)"

definition is_ConversationResponse :: "pyval \<Rightarrow> bool" where
  "is_ConversationResponse v =
     (case v of
        PyObject cls attrs \<Rightarrow> has_conversation_fields attrs
      | PyDict kvs \<Rightarrow> has_conversation_fields kvs
      | _ \<Rightarrow> False)"

text \<open>
  The decorators of \<^verbatim>\<open>create_conversation\<close>, \<^verbatim>\<open>get_conversation_by_id\<close> and
  \<^verbatim>\<open>update_conversation\<close> (lines 15, 48 and 65) declare \<^verbatim>\<open>response_model=ConversationResponse\<close>.
  The value such a handler returns is not the response body: the framework first
  validates it against the class, reading the declared fields from a dictionary's keys
  or an object's attributes, and then serialises the declared fields, in the order of
  their declaration. A field that is not declared is dropped; a value that does not
  validate (a declared field missing or of the wrong type, or a value that is neither a
  dictionary nor an object) raises \<^verbatim>\<open>ResponseValidationError\<close> after the handler has
  returned, and the client gets a 500. The response model is a list of field names with
  their types; the conversions the validation would apply to a value of another type
  are not modelled, such a value is refused.
\<close>

datatype ftype = TStr | TInt

fun has_type :: "ftype \<Rightarrow> pyval \<Rightarrow> bool" where
  "has_type TStr (PyStr s) = True"
| "has_type TInt (PyInt i) = True"
| "has_type t v = False"

datatype body = Body pyval | ResponseValidationError

fun validate_field :: "(string \<times> pyval) list \<Rightarrow> string \<times> ftype \<Rightarrow> (string \<times> pyval) option" where
  "validate_field kvs (name, t) =
     (case map_of kvs name of
        None \<Rightarrow> None
      | Some x \<Rightarrow> if has_type t x then Some (name, x) else None)"

definition serialize_fields :: "(string \<times> ftype) list \<Rightarrow> (string \<times> pyval) list \<Rightarrow> body" where
  "serialize_fields response_model kvs =
     (case those (map (validate_field kvs) response_model) of
        None \<Rightarrow> ResponseValidationError
      | Some validated \<Rightarrow> Body (PyDict validated))"

definition serialize_response :: "(string \<times> ftype) list \<Rightarrow> pyval \<Rightarrow> body" where
  "serialize_response response_model response_content =
     (case response_content of
        PyDict kvs \<Rightarrow> serialize_fields response_model kvs
      | PyObject cls attrs \<Rightarrow> serialize_fields response_model attrs
      | _ \<Rightarrow> ResponseValidationError)"

text \<open>
  What the framework makes of a handler's outcome under a response model: a returned
  value is validated and serialised; an exception is left as it is.
\<close>

definition response :: "(string \<times> ftype) list \<Rightarrow> exn + pyval \<Rightarrow> exn + body" where
  "response response_model outcome =
     (case outcome of
        Inl e \<Rightarrow> Inl e
      | Inr response_content \<Rightarrow> Inr (serialize_response response_model response_content))"

text \<open>
  Modelled from the spec: the fields of \<^verbatim>\<open>ConversationResponse\<close> that the spec's data model
  names, with their types. The spec leaves the content fields of the class unspecified.
\<close>

definition ConversationResponse :: "(string \<times> ftype) list" where
  "ConversationResponse =
     [(''conversation_id'', TStr), (''session_id'', TInt), (''user_id'', TInt)]"

text \<open>
  A dictionary with exactly the declared fields of a response model: the same names in
  the same order, each value of the declared type.
\<close>

definition has_exactly_the_fields :: "(string \<times> ftype) list \<Rightarrow> pyval \<Rightarrow> bool" where
  "has_exactly_the_fields response_model v =
     (case v of
        PyDict kvs \<Rightarrow>
          distinct (map fst response_model)
          \<and> list_all2 (\<lambda>kx nt. fst kx = fst nt \<and> has_type (snd nt) (snd kx)) kvs response_model
      | _ \<Rightarrow> False)"

text \<open>
  The conversation service is outside the router, so the handlers take it as an argument.
  The examples run them on the stubs below: the service state is a counter that every
  stub increments, so that a call leaves a mark on the state.
\<close>

definition world0 :: "nat world" where
  "world0 = \<lparr>db = 0, logged = [], invoked = []\<rparr>"

definition conversation1 :: pyval where
  "conversation1 =
     PyObject ''ConversationResponse''
       [(''conversation_id'', PyStr ''uuid-1''), (''session_id'', PyInt 42),
        (''user_id'', PyInt 7)]"

definition create_stub ::
  "exn + pyval \<Rightarrow> 'r ConversationCreateRequest_scheme \<Rightarrow> 'u UserInDB_scheme \<Rightarrow> nat
   \<Rightarrow> (exn + pyval) \<times> nat" where
  "create_stub r request current_user d = (r, Suc d)"

definition update_stub ::
  "exn + pyval \<Rightarrow> 'r ConversationUpdateRequest_scheme \<Rightarrow> nat \<Rightarrow> (exn + pyval) \<times> nat" where
  "update_stub r request d = (r, Suc d)"

definition get_stub :: "exn + pyval \<Rightarrow> string \<Rightarrow> int \<Rightarrow> nat \<Rightarrow> (exn + pyval) \<times> nat" where
  "get_stub r cid uid d = (r, Suc d)"

definition list_stub :: "exn + pyval \<Rightarrow> int \<Rightarrow> int \<Rightarrow> nat \<Rightarrow> (exn + pyval) \<times> nat" where
  "list_stub r sid uid d = (r, Suc d)"

definition prd_stub :: "exn + pyval \<Rightarrow> int \<Rightarrow> nat \<Rightarrow> (exn + pyval) \<times> nat" where
  "prd_stub r uid d = (r, Suc d)"

definition conversation_dict :: pyval where
  "conversation_dict =
     PyDict [(''conversation_id'', PyStr ''uuid-1''), (''session_id'', PyInt 42),
             (''user_id'', PyInt 7)]"

definition conversation_extra :: pyval where
  "conversation_extra =
     PyDict [(''conversation_id'', PyStr ''uuid-1''), (''session_id'', PyInt 42),
             (''user_id'', PyInt 7), (''owner_email'', PyStr ''a@example.org'')]"

definition uuid1 :: UUID where
  "uuid1 = 0x123e4567e89b12d3a456426614174000"

section \<open>Properties of the handlers\<close>

lemmas handler_defs =
  create_conversation_def update_conversation_def get_conversation_by_id_def
  get_session_conversations_def get_latest_prd_def try_except_def await_def
  logger_info_def logger_error_def HTTP_403_FORBIDDEN_def Let_def

lemmas stub_defs =
  create_stub_def update_stub_def get_stub_def list_stub_def prd_stub_def world0_def



lemma listed_values_are_falsy:
  "\<not> truthy PyNone" "\<not> truthy (PyDict [])" "\<not> truthy (PyList [])"
  "\<not> truthy (PyInt 0)" "\<not> truthy (PyStr [])"
  by simp_all

subsection \<open>The response model\<close>

lemma those_validate_fields:
  "list_all2 (\<lambda>kx nt. fst kx = fst nt \<and> has_type (snd nt) (snd kx)) ys response_model \<Longrightarrow>
   (\<And>k x. (k, x) \<in> set ys \<Longrightarrow> map_of kvs k = Some x) \<Longrightarrow>
   those (map (validate_field kvs) response_model) = Some ys"
proof (induction ys response_model rule: list_all2_induct)
  case Nil
  then show ?case by simp
next
  case (Cons kx ys nt response_model)
  obtain k x where kx: "kx = (k, x)" by (cases kx)
  obtain n t where nt: "nt = (n, t)" by (cases nt)
  from Cons.hyps kx nt have kn: "k = n" and ty: "has_type t x" by simp_all
  from Cons.prems kx have "map_of kvs k = Some x" by simp
  moreover have "those (map (validate_field kvs) response_model) = Some ys"
    using Cons.IH Cons.prems by simp
  ultimately show ?case using kx nt kn ty by simp
qed

text \<open>A dictionary with exactly the declared fields is its own response body.\<close>

lemma exact_fields_serialize_to_themselves:
  assumes "has_exactly_the_fields response_model v"
  shows "serialize_response response_model v = Body v"
proof -
  from assms obtain kvs where v: "v = PyDict kvs"
    and d: "distinct (map fst response_model)"
    and a: "list_all2 (\<lambda>kx nt. fst kx = fst nt \<and> has_type (snd nt) (snd kx)) kvs response_model"
    by (auto simp: has_exactly_the_fields_def split: pyval.splits)
  from a have "map fst kvs = map fst response_model"
    by (induction kvs response_model rule: list_all2_induct) simp_all
  with d have "distinct (map fst kvs)" by simp
  then have "\<And>k x. (k, x) \<in> set kvs \<Longrightarrow> map_of kvs k = Some x" by simp
  with a have "those (map (validate_field kvs) response_model) = Some kvs"
    by (rule those_validate_fields)
  with v show ?thesis by (simp add: serialize_response_def serialize_fields_def)
qed

lemma conversation_dict_has_exactly_the_fields:
  "has_exactly_the_fields ConversationResponse conversation_dict"
  by (simp add: has_exactly_the_fields_def ConversationResponse_def conversation_dict_def)

text \<open>
  The values that validate against \<^verbatim>\<open>ConversationResponse\<close> are the conversation values;
  a value that is neither a dictionary nor an object validates against no class, and a
  dictionary without its \<^verbatim>\<open>conversation_id\<close> does not validate either.
\<close>

lemma validated_iff_is_ConversationResponse:
  "is_ConversationResponse v \<longleftrightarrow>
     serialize_response ConversationResponse v \<noteq> ResponseValidationError"
  by (cases v)
     (auto simp: is_ConversationResponse_def has_conversation_fields_def serialize_response_def
        serialize_fields_def ConversationResponse_def split: option.splits pyval.splits)

lemma not_an_object_is_refused:
  "serialize_response response_model (PyInt n) = ResponseValidationError"
  by (simp add: serialize_response_def)

lemma missing_field_is_refused:
  "serialize_response ConversationResponse
     (PyDict [(''session_id'', PyInt 42), (''user_id'', PyInt 7)]) = ResponseValidationError"
  by (simp add: serialize_response_def serialize_fields_def ConversationResponse_def)

subsection \<open>Ownership check of create and update\<close>

text \<open>
  C1. When the \<^verbatim>\<open>user_id\<close> of a create or update request differs from the authenticated
  caller's, the handler raises \<^verbatim>\<open>HTTPException(403)\<close> and the service is not invoked: the
  result is the same for every service function, the trace of awaited service functions
  and the service's state are as before, and only the handler's opening log record has
  been written.
\<close>

theorem mismatch_is_forbidden_without_service_call:
  "(UserInDB.user_id current_user \<noteq> ConversationCreateRequest.user_id create_request \<longrightarrow>
      create_conversation create_conversation_service create_request current_user w =
        (Inl (HTTPException 403 ''User ID does not match the authenticated user's ID''),
         w\<lparr>logged := logged w @
              [INFO [Lit ''Creating a conversation for session_id: '',
                     FInt (ConversationCreateRequest.session_id create_request),
                     Lit '' by user_id: '', FInt (UserInDB.user_id current_user)]]\<rparr>)
      \<and> invoked (snd (create_conversation create_conversation_service create_request
                         current_user w)) = invoked w
      \<and> db (snd (create_conversation create_conversation_service create_request
                    current_user w)) = db w)
   \<and> (UserInDB.user_id current_user \<noteq> ConversationUpdateRequest.user_id update_request \<longrightarrow>
      update_conversation update_conversation_service update_request current_user w =
        (Inl (HTTPException 403 ''User ID does not match the authenticated user's ID''),
         w\<lparr>logged := logged w @
              [INFO [Lit ''Updating conversation for session_id: '',
                     FInt (ConversationUpdateRequest.session_id update_request)]]\<rparr>)
      \<and> invoked (snd (update_conversation update_conversation_service update_request
                         current_user w)) = invoked w
      \<and> db (snd (update_conversation update_conversation_service update_request
                    current_user w)) = db w)"
  by (simp add: create_conversation_def update_conversation_def logger_info_def
        HTTP_403_FORBIDDEN_def Let_def)

text \<open>
  The request \<^verbatim>\<open>{session_id: 42, user_id: 7}\<close> sent by user 9: the stub service, which would
  have counted its call, has not run.
\<close>

theorem mismatch_is_forbidden_without_service_call_witness:
  "create_conversation (create_stub (Inr conversation1))
       \<lparr>ConversationCreateRequest.session_id = 42, ConversationCreateRequest.user_id = 7\<rparr>
       \<lparr>UserInDB.user_id = 9\<rparr> world0
     = (Inl (HTTPException 403 ''User ID does not match the authenticated user's ID''),
        \<lparr>db = 0,
         logged = [INFO [Lit ''Creating a conversation for session_id: '', FInt 42,
                         Lit '' by user_id: '', FInt 9]],
         invoked = []\<rparr>)
   \<and> update_conversation (update_stub (Inr conversation1))
       \<lparr>ConversationUpdateRequest.session_id = 42, ConversationUpdateRequest.user_id = 7\<rparr>
       \<lparr>UserInDB.user_id = 9\<rparr> world0
     = (Inl (HTTPException 403 ''User ID does not match the authenticated user's ID''),
        \<lparr>db = 0,
         logged = [INFO [Lit ''Updating conversation for session_id: '', FInt 42]],
         invoked = []\<rparr>)"
  using mismatch_is_forbidden_without_service_call
    [where current_user = "\<lparr>UserInDB.user_id = 9\<rparr>"
       and create_request =
         "\<lparr>ConversationCreateRequest.session_id = 42, ConversationCreateRequest.user_id = 7\<rparr>"
       and update_request =
         "\<lparr>ConversationUpdateRequest.session_id = 42, ConversationUpdateRequest.user_id = 7\<rparr>"
       and create_conversation_service = "create_stub (Inr conversation1)"
       and update_conversation_service = "update_stub (Inr conversation1)"
       and w = world0]
  by (simp add: world0_def)

subsection \<open>The PRD handler delegates\<close>

text \<open>
  C2. For every integer \<^verbatim>\<open>user_id\<close>, \<^verbatim>\<open>get_latest_prd\<close> returns what \<^verbatim>\<open>get_prd_service(user_id)\<close>
  returns and raises what it raises, whatever the exception: the handler has no caller
  argument to compare the id with, wraps nothing and logs nothing. Its only effects are
  those of the one service call.
\<close>

theorem get_latest_prd_is_the_service_call:
  "fst (get_latest_prd get_prd_service uid w) = fst (get_prd_service uid (db w))
   \<and> db (snd (get_latest_prd get_prd_service uid w)) = snd (get_prd_service uid (db w))
   \<and> logged (snd (get_latest_prd get_prd_service uid w)) = logged w
   \<and> invoked (snd (get_latest_prd get_prd_service uid w)) = invoked w @ [GetPrdService]"
  by (simp add: get_latest_prd_def await_def split: prod.splits)

subsection \<open>Values returned by the service\<close>

text \<open>
  C3, as stated, fails: the response body of create and update is not the handler's
  return value but what \<^verbatim>\<open>response_model=ConversationResponse\<close> makes of it. With matching
  ids and a service that returns a dictionary with one field more than the class
  declares, the handler returns the dictionary and the body lacks that field.
\<close>

theorem response_body_drops_undeclared_field:
  "fst (create_conversation (create_stub (Inr conversation_extra))
          \<lparr>ConversationCreateRequest.session_id = 42, ConversationCreateRequest.user_id = 7\<rparr>
          \<lparr>UserInDB.user_id = 7\<rparr> world0) = Inr conversation_extra
   \<and> response ConversationResponse
        (fst (create_conversation (create_stub (Inr conversation_extra))
          \<lparr>ConversationCreateRequest.session_id = 42, ConversationCreateRequest.user_id = 7\<rparr>
          \<lparr>UserInDB.user_id = 7\<rparr> world0))
       = Inr (Body (PyDict [(''conversation_id'', PyStr ''uuid-1''), (''session_id'', PyInt 42),
                            (''user_id'', PyInt 7)]))
   \<and> response ConversationResponse
        (fst (create_conversation (create_stub (Inr conversation_extra))
          \<lparr>ConversationCreateRequest.session_id = 42, ConversationCreateRequest.user_id = 7\<rparr>
          \<lparr>UserInDB.user_id = 7\<rparr> world0))
       \<noteq> Inr (Body conversation_extra)"
  by (simp add: handler_defs stub_defs response_def serialize_response_def serialize_fields_def
        ConversationResponse_def conversation_extra_def)

text \<open>
  C3, amended. When the ids of a create or update request match and the service call
  returns a value, the value the handler returns is exactly that value, unmodified. The
  response body is that value validated and serialised under the response model: it is
  exactly the service's value when that value is a dictionary with exactly the declared
  fields, for every response model.
\<close>

theorem matching_ids_handler_returns_service_value:
  "(UserInDB.user_id current_user = ConversationCreateRequest.user_id create_request
      \<and> create_conversation_service create_request current_user (db w) = (Inr v, d) \<longrightarrow>
      fst (create_conversation create_conversation_service create_request current_user w)
        = Inr v
      \<and> (has_exactly_the_fields response_model v \<longrightarrow>
           response response_model
             (fst (create_conversation create_conversation_service create_request
                     current_user w))
           = Inr (Body v)))
   \<and> (UserInDB.user_id current_user = ConversationUpdateRequest.user_id update_request
      \<and> update_conversation_service update_request (db w) = (Inr v', d') \<longrightarrow>
      fst (update_conversation update_conversation_service update_request current_user w)
        = Inr v'
      \<and> (has_exactly_the_fields response_model v' \<longrightarrow>
           response response_model
             (fst (update_conversation update_conversation_service update_request
                     current_user w))
           = Inr (Body v')))"
  by (simp add: handler_defs response_def exact_fields_serialize_to_themselves)

text \<open>
  The spec's scenario: the request \<^verbatim>\<open>{session_id: 42, user_id: 7}\<close> sent by user 7, and a
  service that returns \<^verbatim>\<open>{conversation_id: "uuid-1", session_id: 42, user_id: 7}\<close>.
\<close>

theorem matching_ids_handler_returns_service_value_witness:
  "has_exactly_the_fields ConversationResponse conversation_dict
   \<and> fst (create_conversation (create_stub (Inr conversation_dict))
          \<lparr>ConversationCreateRequest.session_id = 42, ConversationCreateRequest.user_id = 7\<rparr>
          \<lparr>UserInDB.user_id = 7\<rparr> world0) = Inr conversation_dict
   \<and> response ConversationResponse
        (fst (create_conversation (create_stub (Inr conversation_dict))
          \<lparr>ConversationCreateRequest.session_id = 42, ConversationCreateRequest.user_id = 7\<rparr>
          \<lparr>UserInDB.user_id = 7\<rparr> world0)) = Inr (Body conversation_dict)
   \<and> fst (update_conversation (update_stub (Inr conversation_dict))
          \<lparr>ConversationUpdateRequest.session_id = 42, ConversationUpdateRequest.user_id = 7\<rparr>
          \<lparr>UserInDB.user_id = 7\<rparr> world0) = Inr conversation_dict
   \<and> response ConversationResponse
        (fst (update_conversation (update_stub (Inr conversation_dict))
          \<lparr>ConversationUpdateRequest.session_id = 42, ConversationUpdateRequest.user_id = 7\<rparr>
          \<lparr>UserInDB.user_id = 7\<rparr> world0)) = Inr (Body conversation_dict)"
  using matching_ids_handler_returns_service_value
    [where current_user = "\<lparr>UserInDB.user_id = 7\<rparr>"
       and create_request =
         "\<lparr>ConversationCreateRequest.session_id = 42, ConversationCreateRequest.user_id = 7\<rparr>"
       and update_request =
         "\<lparr>ConversationUpdateRequest.session_id = 42, ConversationUpdateRequest.user_id = 7\<rparr>"
       and create_conversation_service = "create_stub (Inr conversation_dict)"
       and update_conversation_service = "update_stub (Inr conversation_dict)"
       and response_model = ConversationResponse
       and w = world0 and v = conversation_dict and v' = conversation_dict and d = 1 and d' = 1]
    conversation_dict_has_exactly_the_fields
  by (auto simp add: stub_defs)



subsection \<open>Exceptions raised by the service\<close>

text \<open>
  C5. In \<^verbatim>\<open>get_conversation_by_id\<close> and \<^verbatim>\<open>get_latest_prd\<close>, an \<^verbatim>\<open>HTTPException\<close> raised by the
  service leaves the handler as it is, with the same status code and detail.
\<close>

theorem classified_error_passes_unchanged:
  "(get_conversations_service (str_UUID conversation_id) (UserInDB.user_id current_user) (db w)
        = (Inl (HTTPException s dt), d) \<longrightarrow>
      fst (get_conversation_by_id get_conversations_service conversation_id current_user w)
        = Inl (HTTPException s dt))
   \<and> (get_prd_service uid (db w) = (Inl (HTTPException s' dt'), d') \<longrightarrow>
      fst (get_latest_prd get_prd_service uid w) = Inl (HTTPException s' dt'))"
  by (simp add: handler_defs)

theorem classified_error_passes_unchanged_witness:
  "fst (get_conversation_by_id (get_stub (Inl (HTTPException 403 ''Not your conversation'')))
          uuid1 \<lparr>UserInDB.user_id = 7\<rparr> world0)
     = Inl (HTTPException 403 ''Not your conversation'')
   \<and> fst (get_latest_prd (prd_stub (Inl (HTTPException 404 ''No PRD for this user''))) 5 world0)
     = Inl (HTTPException 404 ''No PRD for this user'')"
  using classified_error_passes_unchanged
    [where get_conversations_service = "get_stub (Inl (HTTPException 403 ''Not your conversation''))"
       and get_prd_service = "prd_stub (Inl (HTTPException 404 ''No PRD for this user''))"
       and conversation_id = uuid1 and current_user = "\<lparr>UserInDB.user_id = 7\<rparr>"
       and w = world0 and uid = 5 and s = 403 and dt = "''Not your conversation''"
       and s' = 404 and dt' = "''No PRD for this user''" and d = 1 and d' = 1]
  by (simp add: stub_defs)

text \<open>
  C6, as stated, fails for \<^verbatim>\<open>get_latest_prd\<close>: the handler has no \<^verbatim>\<open>try\<close>, so an exception of
  the service that is not an \<^verbatim>\<open>HTTPException\<close> leaves it unchanged, message included,
  instead of becoming \<^verbatim>\<open>HTTPException(500, "Internal server error")\<close>.
\<close>

theorem get_latest_prd_unclassified_error_not_wrapped:
  "fst (get_latest_prd (prd_stub (Inl (OtherException ''connect to db.internal:5432 refused'')))
          5 world0)
     = Inl (OtherException ''connect to db.internal:5432 refused'')
   \<and> fst (get_latest_prd (prd_stub (Inl (OtherException ''connect to db.internal:5432 refused'')))
          5 world0)
     \<noteq> Inl (HTTPException 500 ''Internal server error'')"
  by (simp add: get_latest_prd_def await_def prd_stub_def world0_def)

text \<open>
  C6, amended. In the four handlers that wrap their service call in \<^verbatim>\<open>try\<close> (create, list
  by session, get by id, update), when the service raises an exception that is not an
  \<^verbatim>\<open>HTTPException\<close> the handler raises \<^verbatim>\<open>HTTPException(500, "Internal server error")\<close>: the
  detail is this constant, whatever the message of the original exception.
\<close>

theorem unclassified_error_is_generic_500_in_wrapping_handlers:
  "(UserInDB.user_id current_user = ConversationCreateRequest.user_id create_request
      \<and> create_conversation_service create_request current_user (db w)
          = (Inl (OtherException msg), d) \<longrightarrow>
      fst (create_conversation create_conversation_service create_request current_user w)
        = Inl (HTTPException 500 ''Internal server error''))
   \<and> (get_session_conversations_service sid (UserInDB.user_id current_user) (db w)
          = (Inl (OtherException msg), d) \<longrightarrow>
      fst (get_session_conversations get_session_conversations_service sid current_user w)
        = Inl (HTTPException 500 ''Internal server error''))
   \<and> (get_conversations_service (str_UUID conversation_id) (UserInDB.user_id current_user) (db w)
          = (Inl (OtherException msg), d) \<longrightarrow>
      fst (get_conversation_by_id get_conversations_service conversation_id current_user w)
        = Inl (HTTPException 500 ''Internal server error''))
   \<and> (UserInDB.user_id current_user = ConversationUpdateRequest.user_id update_request
      \<and> update_conversation_service update_request (db w) = (Inl (OtherException msg), d) \<longrightarrow>
      fst (update_conversation update_conversation_service update_request current_user w)
        = Inl (HTTPException 500 ''Internal server error''))"
  by (simp add: handler_defs)

theorem unclassified_error_is_generic_500_in_wrapping_handlers_witness:
  "fst (create_conversation
          (create_stub (Inl (OtherException ''connect to db.internal:5432 refused'')))
          \<lparr>ConversationCreateRequest.session_id = 42, ConversationCreateRequest.user_id = 7\<rparr>
          \<lparr>UserInDB.user_id = 7\<rparr> world0)
     = Inl (HTTPException 500 ''Internal server error'')
   \<and> fst (get_session_conversations
          (list_stub (Inl (OtherException ''connect to db.internal:5432 refused'')))
          42 \<lparr>UserInDB.user_id = 7\<rparr> world0)
     = Inl (HTTPException 500 ''Internal server error'')
   \<and> fst (get_conversation_by_id
          (get_stub (Inl (OtherException ''connect to db.internal:5432 refused'')))
          uuid1 \<lparr>UserInDB.user_id = 7\<rparr> world0)
     = Inl (HTTPException 500 ''Internal server error'')
   \<and> fst (update_conversation
          (update_stub (Inl (OtherException ''connect to db.internal:5432 refused'')))
          \<lparr>ConversationUpdateRequest.session_id = 42, ConversationUpdateRequest.user_id = 7\<rparr>
          \<lparr>UserInDB.user_id = 7\<rparr> world0)
     = Inl (HTTPException 500 ''Internal server error'')"
  using unclassified_error_is_generic_500_in_wrapping_handlers
    [where current_user = "\<lparr>UserInDB.user_id = 7\<rparr>"
       and create_request =
         "\<lparr>ConversationCreateRequest.session_id = 42, ConversationCreateRequest.user_id = 7\<rparr>"
       and update_request =
         "\<lparr>ConversationUpdateRequest.session_id = 42, ConversationUpdateRequest.user_id = 7\<rparr>"
       and create_conversation_service =
         "create_stub (Inl (OtherException ''connect to db.internal:5432 refused''))"
       and get_session_conversations_service =
         "list_stub (Inl (OtherException ''connect to db.internal:5432 refused''))"
       and get_conversations_service =
         "get_stub (Inl (OtherException ''connect to db.internal:5432 refused''))"
       and update_conversation_service =
         "update_stub (Inl (OtherException ''connect to db.internal:5432 refused''))"
       and sid = 42 and conversation_id = uuid1 and w = world0
       and msg = "''connect to db.internal:5432 refused''" and d = 1]
  by (simp add: stub_defs)

subsection \<open>The absence test of get by id\<close>

text \<open>
  C8. The absence test of \<^verbatim>\<open>get_conversation_by_id\<close> is \<^verbatim>\<open>not conversation\<close>, a truth test: for
  every falsy value the service returns (\<^verbatim>\<open>None\<close>, an empty dictionary, an empty list, 0,
  the empty string) the handler raises \<^verbatim>\<open>HTTPException(404)\<close>.
\<close>

theorem falsy_service_value_is_404:
  assumes "get_conversations_service (str_UUID conversation_id) (UserInDB.user_id current_user)
             (db w) = (Inr v, d)"
    and "\<not> truthy v"
  shows "fst (get_conversation_by_id get_conversations_service conversation_id current_user w)
           = Inl (HTTPException 404 ''Conversation not found'')"
  using assms by (simp add: handler_defs)

theorem falsy_service_value_is_404_witness:
  "\<not> truthy (PyDict []) \<and> PyDict [] \<noteq> PyNone
   \<and> fst (get_conversation_by_id (get_stub (Inr (PyDict []))) uuid1
            \<lparr>UserInDB.user_id = 7\<rparr> world0)
     = Inl (HTTPException 404 ''Conversation not found'')"
  using falsy_service_value_is_404
    [where get_conversations_service = "get_stub (Inr (PyDict []))" and conversation_id = uuid1
       and current_user = "\<lparr>UserInDB.user_id = 7\<rparr>" and w = world0 and v = "PyDict []"
       and d = 1]
  by (simp add: stub_defs)

text \<open>
  C10. The \<^verbatim>\<open>HTTPException(404)\<close> that \<^verbatim>\<open>get_conversation_by_id\<close> raises inside its \<^verbatim>\<open>try\<close> is
  caught by \<^verbatim>\<open>except HTTPException\<close> and raised again unchanged: when the service returns
  \<^verbatim>\<open>None\<close> the handler ends with status 404, never with 500, and the catch-all clause has
  not run (no error record is logged).
\<close>

theorem absent_conversation_404_reraised_not_500:
  assumes "get_conversations_service (str_UUID conversation_id) (UserInDB.user_id current_user)
             (db w) = (Inr PyNone, d)"
  shows "get_conversation_by_id get_conversations_service conversation_id current_user w
           = (Inl (HTTPException 404 ''Conversation not found''),
              w\<lparr>db := d,
                logged := logged w @
                  [INFO [Lit ''Fetching conversation with id: '',
                         FStr (str_UUID conversation_id)]],
                invoked := invoked w @ [GetConversationsService]\<rparr>)
         \<and> (\<forall>dt. fst (get_conversation_by_id get_conversations_service conversation_id
                         current_user w) \<noteq> Inl (HTTPException 500 dt))"
  using assms by (simp add: handler_defs)

theorem absent_conversation_404_reraised_not_500_witness:
  "get_conversation_by_id (get_stub (Inr PyNone)) uuid1 \<lparr>UserInDB.user_id = 7\<rparr> world0
     = (Inl (HTTPException 404 ''Conversation not found''),
        \<lparr>db = 1,
         logged = [INFO [Lit ''Fetching conversation with id: '', FStr (str_UUID uuid1)]],
         invoked = [GetConversationsService]\<rparr>)"
  using absent_conversation_404_reraised_not_500
    [where get_conversations_service = "get_stub (Inr PyNone)" and conversation_id = uuid1
       and current_user = "\<lparr>UserInDB.user_id = 7\<rparr>" and w = world0 and d = 1]
  by (simp add: stub_defs)

subsection \<open>Update depends on the caller through the id only\<close>

text \<open>
  C9. \<^verbatim>\<open>update_conversation\<close> passes only the request to the service. For two authenticated
  users whose \<^verbatim>\<open>user_id\<close> equals the request's, whatever their other fields, the handler's
  result and effects on the same request are the same, and the result is determined by
  what the service does with the request.
\<close>

theorem update_outcome_independent_of_other_user_fields:
  assumes "UserInDB.user_id user_a = ConversationUpdateRequest.user_id request"
    and "UserInDB.user_id user_b = ConversationUpdateRequest.user_id request"
  shows "update_conversation update_conversation_service request user_a w
           = update_conversation update_conversation_service request user_b w
         \<and> fst (update_conversation update_conversation_service request user_a w)
             = (case fst (update_conversation_service request (db w)) of
                  Inr v \<Rightarrow> Inr v
                | Inl e \<Rightarrow> Inl (HTTPException 500 ''Internal server error''))"
  using assms by (simp add: handler_defs split: prod.splits sum.splits)

theorem update_outcome_independent_of_other_user_fields_witness:
  "\<lparr>UserInDB.user_id = 7, \<dots> = ''alice''\<rparr> \<noteq> \<lparr>UserInDB.user_id = 7, \<dots> = ''mallory''\<rparr>
   \<and> update_conversation (update_stub (Inr conversation1))
         \<lparr>ConversationUpdateRequest.session_id = 42, ConversationUpdateRequest.user_id = 7\<rparr>
         \<lparr>UserInDB.user_id = 7, \<dots> = ''alice''\<rparr> world0
       = update_conversation (update_stub (Inr conversation1))
         \<lparr>ConversationUpdateRequest.session_id = 42, ConversationUpdateRequest.user_id = 7\<rparr>
         \<lparr>UserInDB.user_id = 7, \<dots> = ''mallory''\<rparr> world0
   \<and> fst (update_conversation (update_stub (Inr conversation1))
         \<lparr>ConversationUpdateRequest.session_id = 42, ConversationUpdateRequest.user_id = 7\<rparr>
         \<lparr>UserInDB.user_id = 7, \<dots> = ''alice''\<rparr> world0)
       = Inr conversation1"
  using update_outcome_independent_of_other_user_fields
    [where user_a = "\<lparr>UserInDB.user_id = 7, \<dots> = ''alice''\<rparr>"
       and user_b = "\<lparr>UserInDB.user_id = 7, \<dots> = ''mallory''\<rparr>"
       and request =
         "\<lparr>ConversationUpdateRequest.session_id = 42, ConversationUpdateRequest.user_id = 7\<rparr>"
       and update_conversation_service = "update_stub (Inr conversation1)" and w = world0]
  by (auto simp add: stub_defs)

section \<open>Properties of the route table\<close>

lemma literal_path_matches:
  "match_segments [Literal a, Literal b, Literal c] xs = Some ps \<Longrightarrow>
     xs = [a, b, c] \<or> xs = [a, b, c @ [CHR 0x0A]]"
  by (cases xs rule: list.exhaust; cases "tl xs"; cases "tl (tl xs)"; cases "tl (tl (tl xs))")
     (auto split: if_splits)

text \<open>
  C7 says that \<^verbatim>\<open>GET /conversations/get_prd\<close> reaches \<^verbatim>\<open>get_latest_prd\<close>. It does not: the route
  \<^verbatim>\<open>/conversations/{conversation_id}\<close> is registered on line 48, before \<^verbatim>\<open>/get_prd\<close> on line 86,
  and matches the path with \<^verbatim>\<open>conversation_id = "get_prd"\<close>. The request is handled by
  \<^verbatim>\<open>get_conversation_by_id\<close>. (The sibling route \<^verbatim>\<open>/session/{session_id}\<close> is registered before
  the parameter route and is reached.)
\<close>

theorem get_prd_request_handled_by_get_conversation_by_id:
  "dispatch routes GET ''/conversations/get_prd''
     = Handled Get_conversation_by_id [(''conversation_id'', ''get_prd'')]"
  by (simp add: dispatch_def routes_def prefix_def matches_def compile_path_def
        compile_segment_def)

lemma session_route_is_reached:
  "dispatch routes GET ''/conversations/session/42''
     = Handled Get_session_conversations [(''session_id'', ''42'')]"
  by (simp add: dispatch_def routes_def prefix_def matches_def compile_path_def
        compile_segment_def)

lemma trailing_slash_is_redirected:
  "dispatch routes GET ''/conversations/'' = Redirect ''/conversations''"
  by (simp add: dispatch_def routes_def prefix_def matches_def compile_path_def
        compile_segment_def redirect_path_def)

lemma final_newline_still_matches:
  "dispatch routes POST (''/conversations'' @ [CHR 0x0A]) = Handled Create_conversation []"
  by (simp add: dispatch_def routes_def prefix_def matches_def compile_path_def
        compile_segment_def)

text \<open>No request at all is dispatched to \<^verbatim>\<open>get_latest_prd\<close>.\<close>

lemma get_latest_prd_route_unreachable:
  "dispatch routes m p \<noteq> Handled Get_latest_prd ps"
proof
  assume "dispatch routes m p = Handled Get_latest_prd ps"
  then have h: "first_full routes m p = Some (Get_latest_prd, ps)"
    by (auto simp: dispatch_def split: option.splits if_splits)
  show False
  proof (cases "match_segments [Literal [], Literal ''conversations'', Literal ''get_prd'']
                  (split_slash p)")
    case None
    with h show False
      by (auto simp: routes_def prefix_def matches_def compile_path_def
            compile_segment_def split: option.splits if_splits)
  next
    case (Some qs)
    then have "split_slash p = [[], ''conversations'', ''get_prd'']
               \<or> split_slash p = [[], ''conversations'', ''get_prd'' @ [CHR 0x0A]]"
      by (rule literal_path_matches)
    with h show False
      by (auto simp: routes_def prefix_def matches_def compile_path_def
            compile_segment_def split: option.splits if_splits)
  qed
qed

end
